theory Spec2Isabelle
  imports Main "HOL-Library.Sublist"
begin

section \<open>The \<open>logfire.dash\<close> module: data model\<close>

text \<open>
  The module \<^verbatim>\<open>src/logfire/dash.py\<close> keeps four module-level globals
  (\<^verbatim>\<open>_configured\<close>, \<^verbatim>\<open>_token\<close>, \<^verbatim>\<open>_data_dir\<close>, \<^verbatim>\<open>_base_url\<close>), two flags
  computed at import time (\<^verbatim>\<open>_in_pyodide\<close>, \<^verbatim>\<open>_in_jupyter\<close>) and the cache that
  \<^verbatim>\<open>functools.cache\<close> attaches to \<^verbatim>\<open>_get_token\<close>. The functions talk to four
  collaborators: \<^verbatim>\<open>LogfireConfig.load_token\<close>, the \<^verbatim>\<open>httpx\<close> client,
  \<^verbatim>\<open>IPython.display.display\<close> and \<^verbatim>\<open>print\<close>. Globals and cache are a record that
  every function takes and returns; every call of a collaborator is appended to a
  trace kept in that record; every \<^verbatim>\<open>raise\<close> is an \<open>Inl\<close> result. The leading
  underscore of the private Python names is dropped.
\<close>

subsection \<open>Values, results and errors\<close>

text \<open>Python values of type \<^verbatim>\<open>Any\<close>: the cells of a row and the argument of \<^verbatim>\<open>show\<close>.\<close>

datatype pyval =
    PyNone
  | PyBool bool
  | PyInt int
  | PyStr string
  | PyList "pyval list"
  | PyDict "(string \<times> pyval) list"

type_synonym row = "(string \<times> pyval) list"

text \<open>
  The return type of \<^verbatim>\<open>_raw_query\<close> is \<^verbatim>\<open>_Success | _Error\<close>, two typed dictionaries
  told apart by the literal under the key \<^verbatim>\<open>status\<close>.
\<close>

datatype raw_result =
    Success (clickhouse_data: "row list")
  | Error (error_details: string)

fun status :: "raw_result \<Rightarrow> string" where
  "status (Success rows) = ''success''"
| "status (Error details) = ''error''"

text \<open>
  The exceptions that can leave the module. \<open>UnicodeEncodeError\<close>,
  \<open>HTTPStatusError\<close>, \<open>TransportError\<close> and \<open>JSONDecodeError\<close> come from the HTTP
  client; \<open>ImportError\<close>, \<open>AssertionError\<close>, \<open>RuntimeError\<close>, \<open>ValueError\<close> and
  \<open>LogfireConfigError\<close> are raised by the module, and \<open>ValueError\<close> also by \<^verbatim>\<open>print\<close>.
\<close>

datatype error =
    ImportError
  | AssertionError
  | RuntimeError string
  | ValueError string
  | LogfireConfigError string
  | UnicodeEncodeError
  | HTTPStatusError nat
  | TransportError string
  | JSONDecodeError string

subsection \<open>The HTTP collaborator\<close>

text \<open>
  A request is what the module hands to \<^verbatim>\<open>httpx\<close>: the route, the \<^verbatim>\<open>params\<close>
  dictionary and the \<^verbatim>\<open>headers\<close> dictionary given to \<^verbatim>\<open>AsyncClient\<close>. A response
  carries its status code and what \<^verbatim>\<open>response.json()\<close> gives, which may itself raise.
  \<^verbatim>\<open>client.get\<close> either raises a transport error or returns a response.
\<close>

record request =
  route :: string
  params :: "(string \<times> string) list"
  headers :: "(string \<times> string) list"

record response =
  status_code :: nat
  json :: "error + raw_result"

type_synonym http_get = "request \<Rightarrow> error + response"

text \<open>
  \<^verbatim>\<open>httpx.AsyncClient(headers=...)\<close> encodes every header name and value as ASCII
  when the client is built, and raises \<^verbatim>\<open>UnicodeEncodeError\<close> for a text that has a
  character outside ASCII. A string is the list of its bytes, so such a character
  shows as bytes from 128 on. The client that comes back is represented by the
  headers it will send.
\<close>

definition is_ascii :: "string \<Rightarrow> bool" where
  "is_ascii v \<longleftrightarrow> list_all (\<lambda>c. (of_char c :: nat) < 128) v"

definition AsyncClient :: "(string \<times> string) list \<Rightarrow> error + (string \<times> string) list" where
  "AsyncClient hs =
     (if list_all (\<lambda>(k, v). is_ascii k \<and> is_ascii v) hs then Inr hs
      else Inl UnicodeEncodeError)"

text \<open>\<^verbatim>\<open>Response.raise_for_status\<close> of httpx returns for the 2xx codes and raises otherwise.\<close>

definition is_success :: "response \<Rightarrow> bool" where
  "is_success r \<longleftrightarrow> 200 \<le> status_code r \<and> status_code r \<le> 299"

definition raise_for_status :: "response \<Rightarrow> error + unit" where
  "raise_for_status r = (if is_success r then Inr () else Inl (HTTPStatusError (status_code r)))"

subsection \<open>The token-loading collaborator\<close>

text \<open>
  \<^verbatim>\<open>token, _ = LogfireConfig.load_token(token=_token, data_dir=_data_dir)\<close>: the second
  component is thrown away, so the collaborator is a function from the explicit
  credential and the discovery path to an optional credential. It is a parameter
  of every function that can reach it, so that two calls may see different
  surroundings (an environment variable set in between).
\<close>

type_synonym load_token = "string option \<Rightarrow> string \<Rightarrow> string option"

subsection \<open>The display collaborators\<close>

text \<open>
  \<^verbatim>\<open>IPython.display.display\<close> (lines 106 to 108, the import and the call) and
  \<^verbatim>\<open>print\<close> (line 110). Either can raise for the item it is given, for example
  when the conversion of the item to text raises, and \<^verbatim>\<open>show\<close> catches nothing.
  They are parameters of \<^verbatim>\<open>show\<close>.
\<close>

type_synonym shower = "pyval \<Rightarrow> error + unit"

subsection \<open>Environment and state\<close>

text \<open>
  What is fixed when the module is imported. \<open>httpx\<close> is false when the name
  \<^verbatim>\<open>httpx\<close> is bound to \<^verbatim>\<open>None\<close>. \<open>LOGFIRE_BASE_URL\<close> is the constant of
  \<^verbatim>\<open>logfire/_constants.py\<close>; that file is not part of the sources at hand, so the
  constant is a parameter.
\<close>

record env =
  in_pyodide :: bool
  httpx :: bool
  in_jupyter :: bool
  LOGFIRE_BASE_URL :: string

text \<open>
  The import of the module (lines 12 to 28): \<open>sys_modules\<close> are the keys of
  \<^verbatim>\<open>sys.modules\<close>, \<open>httpx_importable\<close> says whether \<^verbatim>\<open>import httpx\<close> succeeds, and
  \<open>shell\<close> is the class name of \<^verbatim>\<open>get_ipython()\<close>, or \<open>None\<close> when that name is
  not defined (the \<^verbatim>\<open>NameError\<close> branch).
\<close>

definition import_dash :: "string list \<Rightarrow> bool \<Rightarrow> string option \<Rightarrow> string \<Rightarrow> error + env" where
  "import_dash sys_modules httpx_importable shell default_url =
     (let pyo = (''pyodide'' \<in> set sys_modules) in
      if \<not> httpx_importable \<and> \<not> pyo then Inl ImportError
      else Inr \<lparr>in_pyodide = pyo,
                httpx = httpx_importable,
                in_jupyter = (shell = Some ''ZMQInteractiveShell''),
                LOGFIRE_BASE_URL = default_url\<rparr>)"

text \<open>
  The calls made to collaborators, in the order they happen. An event records that
  the call was made with these arguments, also when the collaborator then raises:
  \<open>Http_get r\<close> is the call \<^verbatim>\<open>client.get(route, params=...)\<close> on a client with the
  headers of \<open>r\<close>.
\<close>

datatype event =
    Load_token "string option" string
  | Http_get request
  | Display pyval
  | Print pyval

record state =
  configured :: bool
  token :: "string option"
  data_dir :: string
  base_url :: "string option"
  get_token_cache :: "string option"
  trace :: "event list"

text \<open>Lines 113 to 116, an empty cache and nothing called yet.\<close>

definition initial_state :: state where
  "initial_state =
     \<lparr>configured = False, token = None, data_dir = ''.logfire'', base_url = None,
      get_token_cache = None, trace = []\<rparr>"

definition PYODIDE_NOT_ALLOWED_MESSAGE :: string where
  "PYODIDE_NOT_ALLOWED_MESSAGE = ''This function should not be called in the logfire frontend.''"

definition PYODIDE_MUST_INJECT_MESSAGE :: string where
  "PYODIDE_MUST_INJECT_MESSAGE = ''This function should be injected into pyodide by the web worker.''"

section \<open>The operations\<close>

subsection \<open>\<^verbatim>\<open>configure\<close>\<close>

text \<open>
  Lines 34 to 53. Under pyodide the call returns at once. Otherwise the three
  globals are assigned, the cache of \<^verbatim>\<open>_get_token\<close> is cleared and \<^verbatim>\<open>_configured\<close>
  is set. No path raises.
\<close>

definition configure ::
  "env \<Rightarrow> string option \<Rightarrow> string \<Rightarrow> string option \<Rightarrow> state \<Rightarrow> (error + unit) \<times> state" where
  "configure e tok ddir burl s =
     (if in_pyodide e then (Inr (), s)
      else (Inr (),
            s\<lparr>token := tok, data_dir := ddir, base_url := burl,
              get_token_cache := None, configured := True\<rparr>))"

text \<open>The call \<^verbatim>\<open>configure()\<close> with the defaults of the signature.\<close>

definition configure_default :: "env \<Rightarrow> state \<Rightarrow> (error + unit) \<times> state" where
  "configure_default e s = configure e None ''.logfire'' None s"

subsection \<open>\<^verbatim>\<open>_get_token\<close>\<close>

definition NO_TOKEN_MESSAGE :: string where
  "NO_TOKEN_MESSAGE =
     ''No logfire token provided or found in the default locations.'' @
     '' You can set the token via the environment variable `LOGFIRE_TOKEN`,'' @
     '' or with a call to `logfire.dash.configure`.''"

text \<open>
  The body of the function (lines 121 to 137), without the decorator. What the
  body did before raising stays done: the implicit \<^verbatim>\<open>configure()\<close> and the call of
  the collaborator are in the returned state also when the result is an error.
\<close>

definition get_token_body :: "env \<Rightarrow> load_token \<Rightarrow> state \<Rightarrow> (error + string) \<times> state" where
  "get_token_body e ld s =
     (if in_pyodide e then (Inl (RuntimeError PYODIDE_NOT_ALLOWED_MESSAGE), s)
      else
        (case (if \<not> configured s then configure_default e s else (Inr (), s)) of
           (Inl err, s1) \<Rightarrow> (Inl err, s1)
         | (Inr u, s1) \<Rightarrow>
             (let s2 = s1\<lparr>trace := trace s1 @ [Load_token (token s1) (data_dir s1)]\<rparr> in
              case ld (token s1) (data_dir s1) of
                None \<Rightarrow> (Inl (LogfireConfigError NO_TOKEN_MESSAGE), s2)
              | Some t \<Rightarrow> (Inr t, s2))))"

text \<open>
  \<^verbatim>\<open>@cache\<close> on a function without arguments: one cache slot. A hit returns the
  stored value and the body does not run. On a miss the body runs; its value is
  stored when it returns, and nothing is stored when it raises.
\<close>

definition get_token :: "env \<Rightarrow> load_token \<Rightarrow> state \<Rightarrow> (error + string) \<times> state" where
  "get_token e ld s =
     (case get_token_cache s of
        Some t \<Rightarrow> (Inr t, s)
      | None \<Rightarrow>
          (case get_token_body e ld s of
             (Inl err, s1) \<Rightarrow> (Inl err, s1)
           | (Inr t, s1) \<Rightarrow> (Inr t, s1\<lparr>get_token_cache := Some t\<rparr>)))"

subsection \<open>\<^verbatim>\<open>_raw_query\<close> and \<^verbatim>\<open>query\<close>\<close>

text \<open>
  \<^verbatim>\<open>_base_url or LOGFIRE_BASE_URL\<close>: Python's \<^verbatim>\<open>or\<close> gives its right operand when the
  left one is falsy, which for \<^verbatim>\<open>str | None\<close> is \<^verbatim>\<open>None\<close> and the empty string.
\<close>

definition base_url_or :: "string option \<Rightarrow> string \<Rightarrow> string" where
  "base_url_or burl dflt = (case burl of None \<Rightarrow> dflt | Some u \<Rightarrow> if u = [] then dflt else u)"

text \<open>
  Lines 76 to 94. The coroutine is run to completion: there is one \<^verbatim>\<open>await\<close>, on
  \<^verbatim>\<open>client.get\<close>, and nothing of the module's state is read after it. The client
  is built on line 90, before the route is computed and before \<^verbatim>\<open>client.get\<close> is
  called; when building it raises, \<^verbatim>\<open>client.get\<close> is not called.
\<close>

definition raw_query ::
  "env \<Rightarrow> load_token \<Rightarrow> http_get \<Rightarrow> string \<Rightarrow> state \<Rightarrow> (error + raw_result) \<times> state" where
  "raw_query e ld http q s =
     (if in_pyodide e then (Inl (RuntimeError PYODIDE_MUST_INJECT_MESSAGE), s)
      else if \<not> httpx e then (Inl AssertionError, s)
      else
        (case get_token e ld s of
           (Inl err, s1) \<Rightarrow> (Inl err, s1)
         | (Inr tok, s1) \<Rightarrow>
             (case AsyncClient [(''Authorization'', tok)] of
                Inl err \<Rightarrow> (Inl err, s1)
              | Inr client \<Rightarrow>
                  (let req = \<lparr>route = base_url_or (base_url s1) (LOGFIRE_BASE_URL e) @ ''/dash/query'',
                              params = [(''q'', q)],
                              headers = client\<rparr>;
                       s2 = s1\<lparr>trace := trace s1 @ [Http_get req]\<rparr>
                   in case http req of
                        Inl err \<Rightarrow> (Inl err, s2)
                      | Inr resp \<Rightarrow>
                          (case raise_for_status resp of
                             Inl err \<Rightarrow> (Inl err, s2)
                           | Inr u \<Rightarrow> (json resp, s2))))))"

text \<open>Lines 56 to 63. The message is the f-string \<^verbatim>\<open>'Error running query:\n{error_details}'\<close>.\<close>

definition query ::
  "env \<Rightarrow> load_token \<Rightarrow> http_get \<Rightarrow> string \<Rightarrow> state \<Rightarrow> (error + row list) \<times> state" where
  "query e ld http sql s =
     (case raw_query e ld http sql s of
        (Inl err, s1) \<Rightarrow> (Inl err, s1)
      | (Inr data, s1) \<Rightarrow>
          (if status data = ''success'' then (Inr (clickhouse_data data), s1)
           else (Inl (ValueError (''Error running query:'' @ [CHR 0x0A] @ error_details data)), s1)))"

subsection \<open>\<^verbatim>\<open>show\<close>\<close>

text \<open>
  Lines 97 to 110. \<open>show\<close> is a keyword of the proof language, hence the suffix.
  An exception of \<^verbatim>\<open>display\<close> or \<^verbatim>\<open>print\<close> leaves \<^verbatim>\<open>show\<close> as it is.
\<close>

definition show_item :: "env \<Rightarrow> shower \<Rightarrow> shower \<Rightarrow> pyval \<Rightarrow> state \<Rightarrow> (error + unit) \<times> state" where
  "show_item e display print item s =
     (if in_pyodide e then (Inl (RuntimeError PYODIDE_MUST_INJECT_MESSAGE), s)
      else if in_jupyter e then
        (case display item of
           Inl err \<Rightarrow> (Inl err, s\<lparr>trace := trace s @ [Display item]\<rparr>)
         | Inr u \<Rightarrow> (Inr (), s\<lparr>trace := trace s @ [Display item]\<rparr>))
      else
        (case print item of
           Inl err \<Rightarrow> (Inl err, s\<lparr>trace := trace s @ [Print item]\<rparr>)
         | Inr u \<Rightarrow> (Inr (), s\<lparr>trace := trace s @ [Print item]\<rparr>)))"

subsection \<open>The states the module can be in\<close>

text \<open>
  The flags of the environment never change after the import. A state is reachable
  when it is the initial one or the state left by a call of a public or private
  function, with any arguments and any behaviour of the collaborators, from a
  reachable state.
\<close>

inductive reachable :: "env \<Rightarrow> state \<Rightarrow> bool" for e :: env where
  init: "reachable e initial_state"
| after_configure: "reachable e s \<Longrightarrow> reachable e (snd (configure e tok ddir burl s))"
| after_get_token: "reachable e s \<Longrightarrow> reachable e (snd (get_token e ld s))"
| after_raw_query: "reachable e s \<Longrightarrow> reachable e (snd (raw_query e ld http q s))"
| after_query: "reachable e s \<Longrightarrow> reachable e (snd (query e ld http q s))"
| after_show: "reachable e s \<Longrightarrow> reachable e (snd (show_item e display print item s))"

text \<open>
  Until \<^verbatim>\<open>configure\<close> has run outside pyodide the globals hold the values of lines
  113 to 116 and nothing is cached.
\<close>

definition defaults_until_configured :: "state \<Rightarrow> bool" where
  "defaults_until_configured s \<longleftrightarrow>
     configured s \<or>
     (token s = None \<and> data_dir s = ''.logfire'' \<and> base_url s = None \<and> get_token_cache s = None)"

text \<open>The requests sent so far, read off the trace.\<close>

fun http_requests :: "event list \<Rightarrow> request list" where
  "http_requests [] = []"
| "http_requests (Http_get r # evs) = r # http_requests evs"
| "http_requests (ev # evs) = http_requests evs"

text \<open>
  The base URL as the specification words it, "explicit override, else a fixed
  default", to be compared with \<open>base_url_or\<close>, which is what line 91 computes.
\<close>

definition spec_base_url :: "string option \<Rightarrow> string \<Rightarrow> string" where
  "spec_base_url burl dflt = (case burl of Some u \<Rightarrow> u | None \<Rightarrow> dflt)"

subsection \<open>Concrete environments, states and collaborators\<close>

text \<open>
  Three environments, one for each host. The value of \<open>LOGFIRE_BASE_URL\<close> is an
  example; nothing below depends on it except that it is not empty.
\<close>

definition pyodide_env :: env where
  "pyodide_env = \<lparr>in_pyodide = True, httpx = False, in_jupyter = False,
                   LOGFIRE_BASE_URL = ''https://api.logfire.dev''\<rparr>"

definition local_env :: env where
  "local_env = \<lparr>in_pyodide = False, httpx = True, in_jupyter = False,
                 LOGFIRE_BASE_URL = ''https://api.logfire.dev''\<rparr>"

definition notebook_env :: env where
  "notebook_env = \<lparr>in_pyodide = False, httpx = True, in_jupyter = True,
                    LOGFIRE_BASE_URL = ''https://api.logfire.dev''\<rparr>"

text \<open>A state in which \<^verbatim>\<open>configure(token='old')\<close> has run and the token is cached.\<close>

definition used_state :: state where
  "used_state = \<lparr>configured = True, token = Some ''old'', data_dir = ''.logfire'',
      base_url = None, get_token_cache = Some ''old'',
      trace = [Load_token (Some ''old'') ''.logfire'']\<rparr>"

text \<open>
  A collaborator that gives back the explicit credential when there is one and
  otherwise finds a credential in the directory \<^verbatim>\<open>creds\<close> only.
\<close>

definition dir_loader :: load_token where
  "dir_loader tok ddir =
     (case tok of
        Some t \<Rightarrow> Some t
      | None \<Rightarrow> if ddir = ''creds'' then Some ''from-file'' else None)"

text \<open>Three servers: one answers with a row, one with an error, one is down.\<close>

definition ok_select_1 :: http_get where
  "ok_select_1 req = Inr \<lparr>status_code = 200, json = Inr (Success [[(''1'', PyInt 1)]])\<rparr>"

definition err_syntax :: http_get where
  "err_syntax req = Inr \<lparr>status_code = 200, json = Inr (Error ''syntax error'')\<rparr>"

definition unavailable :: http_get where
  "unavailable req = Inr \<lparr>status_code = 503, json = Inl (JSONDecodeError ''Expecting value'')\<rparr>"

text \<open>
  Two display collaborators. \<open>display_ok\<close> renders everything. \<open>print_py311\<close> is
  \<^verbatim>\<open>print\<close> on CPython 3.11 with a working \<^verbatim>\<open>stdout\<close>: the conversion of an
  integer of more than 4300 decimal digits to text raises \<^verbatim>\<open>ValueError\<close>, also when
  the integer sits inside a list or a dictionary.
\<close>

definition display_ok :: shower where
  "display_ok item = Inr ()"

definition INT_MAX_STR_DIGITS :: nat where
  "INT_MAX_STR_DIGITS = 4300"

fun exceeds_int_max_str_digits :: "pyval \<Rightarrow> bool" where
  "exceeds_int_max_str_digits (PyInt n) \<longleftrightarrow> 10 ^ INT_MAX_STR_DIGITS \<le> \<bar>n\<bar>"
| "exceeds_int_max_str_digits (PyList vs) \<longleftrightarrow> list_ex exceeds_int_max_str_digits vs"
| "exceeds_int_max_str_digits (PyDict kvs) \<longleftrightarrow> list_ex exceeds_int_max_str_digits (map snd kvs)"
| "exceeds_int_max_str_digits v \<longleftrightarrow> False"

definition INT_MAX_STR_DIGITS_MESSAGE :: string where
  "INT_MAX_STR_DIGITS_MESSAGE =
     ''Exceeds the limit (4300 digits) for integer string conversion;'' @
     '' use sys.set_int_max_str_digits() to increase the limit''"

definition print_py311 :: shower where
  "print_py311 item =
     (if exceeds_int_max_str_digits item then Inl (ValueError INT_MAX_STR_DIGITS_MESSAGE)
      else Inr ())"

text \<open>The token \<^verbatim>\<open>'t\xe9'\<close>; its last character is two bytes in UTF-8.\<close>

definition non_ascii_token :: string where
  "non_ascii_token = ''t'' @ [CHR 0xC3, CHR 0xA9]"

definition select_1_request :: request where
  "select_1_request = \<lparr>route = ''https://api.logfire.dev/dash/query'',
      params = [(''q'', ''SELECT 1'')], headers = [(''Authorization'', ''t0'')]\<rparr>"

definition after_select_1 :: state where
  "after_select_1 = \<lparr>configured = True, token = None, data_dir = ''.logfire'', base_url = None,
      get_token_cache = Some ''t0'',
      trace = [Load_token None ''.logfire'', Http_get select_1_request]\<rparr>"

section \<open>Properties\<close>

subsection \<open>How each function changes the state\<close>

lemma raw_query_pyodide:
  "in_pyodide e \<Longrightarrow> raw_query e ld http q s = (Inl (RuntimeError PYODIDE_MUST_INJECT_MESSAGE), s)"
  by (simp add: raw_query_def)

lemma query_pyodide:
  "in_pyodide e \<Longrightarrow> query e ld http q s = (Inl (RuntimeError PYODIDE_MUST_INJECT_MESSAGE), s)"
  by (simp add: query_def raw_query_pyodide)

lemma get_token_hit:
  "get_token_cache s = Some t \<Longrightarrow> get_token e ld s = (Inr t, s)"
  by (simp add: get_token_def)

lemma get_token_miss:
  assumes "\<not> in_pyodide e" and "get_token_cache s = None" and "configured s"
  shows "get_token e ld s
           = (case ld (token s) (data_dir s) of
                None \<Rightarrow> (Inl (LogfireConfigError NO_TOKEN_MESSAGE),
                          s\<lparr>trace := trace s @ [Load_token (token s) (data_dir s)]\<rparr>)
              | Some t \<Rightarrow> (Inr t,
                          s\<lparr>trace := trace s @ [Load_token (token s) (data_dir s)],
                            get_token_cache := Some t\<rparr>))"
  using assms by (simp add: get_token_def get_token_body_def Let_def split: option.splits)

lemma get_token_miss_unconfigured:
  assumes "\<not> in_pyodide e" and "get_token_cache s = None" and "\<not> configured s"
  shows "get_token e ld s = get_token e ld (snd (configure_default e s))"
  using assms
  by (simp add: get_token_def get_token_body_def configure_default_def configure_def Let_def
      split: option.splits)

lemma get_token_Inr:
  assumes "get_token e ld s = (Inr t, s1)"
  shows "get_token_cache s1 = Some t"
  using assms
  by (auto simp: get_token_def get_token_body_def configure_default_def configure_def Let_def
        split: option.splits if_splits)

lemma get_token_Inr_trace:
  assumes "get_token e ld s = (Inr t, s1)" and "get_token_cache s = None"
  shows "trace s1 = trace s @ [Load_token (token s1) (data_dir s1)]"
  using assms
  by (auto simp: get_token_def get_token_body_def configure_default_def configure_def Let_def
        split: option.splits if_splits)

lemma get_token_Inl:
  assumes "\<not> in_pyodide e" and "get_token e ld s = (Inl err, s1)"
  shows "get_token_cache s1 = None \<and> configured s1 \<and> err = LogfireConfigError NO_TOKEN_MESSAGE"
  using assms
  by (auto simp: get_token_def get_token_body_def configure_default_def configure_def Let_def
        split: option.splits if_splits)

lemma http_requests_append:
  "http_requests (evs @ evs') = http_requests evs @ http_requests evs'"
  by (induction evs rule: http_requests.induct) simp_all

lemma get_token_http_requests:
  assumes "get_token e ld s = (r, s1)"
  shows "http_requests (trace s1) = http_requests (trace s)"
  using assms
  by (auto simp: get_token_def get_token_body_def configure_default_def configure_def Let_def
        http_requests_append split: option.splits if_splits)

lemma raw_query_state:
  "snd (raw_query e ld http q s) = s
   \<or> (\<exists>evs. snd (raw_query e ld http q s) = (snd (get_token e ld s))\<lparr>trace := evs\<rparr>)"
proof (cases "get_token e ld s")
  case (Pair r s1)
  have "s1 = s1\<lparr>trace := trace s1\<rparr>" by simp
  then have "\<exists>evs. s1 = s1\<lparr>trace := evs\<rparr>" by (rule exI)
  with Pair show ?thesis
    by (cases r) (auto simp: raw_query_def Let_def split: sum.splits)
qed

lemma query_state:
  "snd (query e ld http q s) = snd (raw_query e ld http q s)"
  by (cases "raw_query e ld http q s") (auto simp: query_def split: sum.splits)

subsection \<open>The import and the reachable states\<close>

text \<open>
  Outside pyodide a failed \<^verbatim>\<open>import httpx\<close> is raised again, so a module that was
  imported there has \<^verbatim>\<open>httpx\<close> bound and the assertion of line 84 holds.
\<close>

lemma import_dash_httpx:
  assumes "import_dash mods hi sh du = Inr e" and "\<not> in_pyodide e"
  shows "httpx e"
  using assms by (auto simp: import_dash_def Let_def split: if_splits)

lemma import_local_env:
  "import_dash [''sys'', ''httpx''] True None ''https://api.logfire.dev'' = Inr local_env"
  by (simp add: import_dash_def local_env_def)

lemma defaults_until_configured_trace:
  "defaults_until_configured (s\<lparr>trace := evs\<rparr>) = defaults_until_configured s"
  by (simp add: defaults_until_configured_def)

lemma configure_defaults:
  "defaults_until_configured s \<Longrightarrow> defaults_until_configured (snd (configure e tok ddir burl s))"
  by (simp add: configure_def defaults_until_configured_def)

lemma get_token_defaults:
  "defaults_until_configured s \<Longrightarrow> defaults_until_configured (snd (get_token e ld s))"
  by (auto simp: get_token_def get_token_body_def configure_default_def configure_def Let_def
        defaults_until_configured_def split: option.splits if_splits)

lemma raw_query_defaults:
  assumes "defaults_until_configured s"
  shows "defaults_until_configured (snd (raw_query e ld http q s))"
  using assms raw_query_state [of e ld http q s] get_token_defaults [OF assms, of e ld]
  by (auto simp: defaults_until_configured_trace)

lemma show_item_defaults:
  "defaults_until_configured s \<Longrightarrow>
   defaults_until_configured (snd (show_item e display print item s))"
  by (simp add: show_item_def defaults_until_configured_def split: sum.splits)

text \<open>
  In every reachable state the implicit \<^verbatim>\<open>configure()\<close> of line 125 assigns the
  values the globals already have.
\<close>

lemma reachable_defaults:
  assumes "reachable e s"
  shows "defaults_until_configured s"
  using assms
proof (induction rule: reachable.induct)
  case init
  show ?case by (simp add: initial_state_def defaults_until_configured_def)
next
  case (after_configure s tok ddir burl)
  then show ?case by (simp add: configure_defaults)
next
  case (after_get_token s ld)
  then show ?case by (simp add: get_token_defaults)
next
  case (after_raw_query s ld http q)
  then show ?case by (simp add: raw_query_defaults)
next
  case (after_query s ld http q)
  then show ?case by (simp add: query_state raw_query_defaults)
next
  case (after_show s display print item)
  then show ?case by (simp add: show_item_defaults)
qed

text \<open>
  Under pyodide no call changes anything: the module stays in its initial state,
  and in particular the cache of \<^verbatim>\<open>_get_token\<close> stays empty.
\<close>

lemma pyodide_reachable:
  assumes "reachable e s" and "in_pyodide e"
  shows "s = initial_state"
  using assms
proof (induction rule: reachable.induct)
  case init
  show ?case by simp
next
  case (after_configure s tok ddir burl)
  then show ?case by (simp add: configure_def)
next
  case (after_get_token s ld)
  then show ?case by (simp add: get_token_def get_token_body_def initial_state_def)
next
  case (after_raw_query s ld http q)
  then show ?case by (simp add: raw_query_def)
next
  case (after_query s ld http q)
  then show ?case by (simp add: query_def raw_query_def)
next
  case (after_show s display print item)
  then show ?case by (simp add: show_item_def)
qed

lemma pyodide_cache_empty:
  assumes "reachable e s" and "in_pyodide e"
  shows "get_token_cache s = None"
  using pyodide_reachable [OF assms] by (simp add: initial_state_def)

subsection \<open>Two runs against the example servers\<close>

lemma raw_query_select_1:
  "raw_query local_env (\<lambda>tok ddir. Some ''t0'') ok_select_1 ''SELECT 1'' initial_state
     = (Inr (Success [[(''1'', PyInt 1)]]), after_select_1)"
  by (simp add: raw_query_def get_token_def get_token_body_def configure_default_def
      configure_def local_env_def initial_state_def base_url_or_def ok_select_1_def
      raise_for_status_def is_success_def after_select_1_def select_1_request_def
      AsyncClient_def is_ascii_def)

lemma raw_query_syntax_error:
  "raw_query local_env (\<lambda>tok ddir. Some ''t0'') err_syntax ''SELECT 1'' initial_state
     = (Inr (Error ''syntax error''), after_select_1)"
  by (simp add: raw_query_def get_token_def get_token_body_def configure_default_def
      configure_def local_env_def initial_state_def base_url_or_def err_syntax_def
      raise_for_status_def is_success_def after_select_1_def select_1_request_def
      AsyncClient_def is_ascii_def)

section \<open>The claims\<close>

text \<open>
  C1. When the pyodide flag is true, \<^verbatim>\<open>_get_token\<close>, \<^verbatim>\<open>_raw_query\<close>, \<^verbatim>\<open>query\<close> and
  \<^verbatim>\<open>show\<close> each raise, whatever the credential, the discovery path, the base URL,
  the configured flag and the trace are, and so also in the initial state, before
  any call of \<^verbatim>\<open>configure\<close>. The state is left as it was. The exception is a
  \<^verbatim>\<open>RuntimeError\<close>, which is what the module raises for an unsupported environment:
  with the "not allowed" message for the token, with the "must inject" message for
  the other three. The cache of \<^verbatim>\<open>_get_token\<close> is empty, as it is in every state
  reachable under pyodide (\<open>pyodide_cache_empty\<close>); the other three functions
  raise before they look at it.
\<close>

theorem pyodide_calls_raise:
  assumes "in_pyodide e" and "get_token_cache s = None"
  shows "get_token e ld s = (Inl (RuntimeError PYODIDE_NOT_ALLOWED_MESSAGE), s)
       \<and> raw_query e ld http q s = (Inl (RuntimeError PYODIDE_MUST_INJECT_MESSAGE), s)
       \<and> query e ld http q s = (Inl (RuntimeError PYODIDE_MUST_INJECT_MESSAGE), s)
       \<and> show_item e display print item s = (Inl (RuntimeError PYODIDE_MUST_INJECT_MESSAGE), s)"
proof -
  from assms have "get_token e ld s = (Inl (RuntimeError PYODIDE_NOT_ALLOWED_MESSAGE), s)"
    by (simp add: get_token_def get_token_body_def)
  with assms(1) show ?thesis
    by (simp add: raw_query_pyodide query_pyodide show_item_def)
qed

theorem pyodide_calls_raise_witness:
  "in_pyodide pyodide_env \<and> get_token_cache initial_state = None
   \<and> get_token pyodide_env (\<lambda>tok ddir. Some ''t0'') initial_state
       = (Inl (RuntimeError PYODIDE_NOT_ALLOWED_MESSAGE), initial_state)
   \<and> raw_query pyodide_env (\<lambda>tok ddir. Some ''t0'') ok_select_1 ''SELECT 1'' initial_state
       = (Inl (RuntimeError PYODIDE_MUST_INJECT_MESSAGE), initial_state)
   \<and> query pyodide_env (\<lambda>tok ddir. Some ''t0'') ok_select_1 ''SELECT 1'' initial_state
       = (Inl (RuntimeError PYODIDE_MUST_INJECT_MESSAGE), initial_state)
   \<and> show_item pyodide_env display_ok print_py311 (PyInt 7) initial_state
       = (Inl (RuntimeError PYODIDE_MUST_INJECT_MESSAGE), initial_state)"
proof -
  have a: "in_pyodide pyodide_env" by (simp add: pyodide_env_def)
  have b: "get_token_cache initial_state = None" by (simp add: initial_state_def)
  show ?thesis
    using a b pyodide_calls_raise [OF a b, where ld = "\<lambda>tok ddir. Some ''t0''"
        and http = ok_select_1 and q = "''SELECT 1''" and item = "PyInt 7"
        and display = display_ok and print = print_py311]
    by simp
qed

text \<open>
  C2. Whenever \<^verbatim>\<open>_raw_query\<close> returns a result with status \<^verbatim>\<open>success\<close>, \<^verbatim>\<open>query\<close>
  returns the list under \<^verbatim>\<open>clickhouse_data\<close> of that result, the same rows in the same
  order, and leaves the state in which \<^verbatim>\<open>_raw_query\<close> left it. The witness is
  \<^verbatim>\<open>query("SELECT 1")\<close> against the response
  \<^verbatim>\<open>{"status":"success","clickhouse_data":[{"1":1}]}\<close>.
\<close>

theorem query_success_rows:
  assumes "raw_query e ld http sql s = (Inr (Success rows), s1)"
  shows "query e ld http sql s = (Inr rows, s1)"
  using assms by (simp add: query_def)

theorem query_success_rows_witness:
  "raw_query local_env (\<lambda>tok ddir. Some ''t0'') ok_select_1 ''SELECT 1'' initial_state
     = (Inr (Success [[(''1'', PyInt 1)]]), after_select_1)
   \<and> query local_env (\<lambda>tok ddir. Some ''t0'') ok_select_1 ''SELECT 1'' initial_state
     = (Inr [[(''1'', PyInt 1)]], after_select_1)"
  using raw_query_select_1 query_success_rows [OF raw_query_select_1] by simp

text \<open>
  C3. Whenever \<^verbatim>\<open>_raw_query\<close> returns a result with status \<^verbatim>\<open>error\<close>, \<^verbatim>\<open>query\<close> raises
  the module's query error, a \<^verbatim>\<open>ValueError\<close>, whose message is the text
  \<^verbatim>\<open>Error running query:\<close>, a newline and the \<^verbatim>\<open>error_details\<close> of the server
  unchanged; so the details are a contiguous part of the message. The witness is
  the response \<^verbatim>\<open>{"status":"error","error_details":"syntax error"}\<close>.
\<close>

theorem query_error_message:
  assumes "raw_query e ld http sql s = (Inr (Error details), s1)"
  shows "query e ld http sql s
           = (Inl (ValueError (''Error running query:'' @ [CHR 0x0A] @ details)), s1)
       \<and> sublist details (''Error running query:'' @ [CHR 0x0A] @ details)"
proof -
  have "sublist details ((''Error running query:'' @ [CHR 0x0A]) @ details)"
    by (rule sublist_append_leftI)
  with assms show ?thesis by (simp add: query_def)
qed

theorem query_error_message_witness:
  "raw_query local_env (\<lambda>tok ddir. Some ''t0'') err_syntax ''SELECT 1'' initial_state
     = (Inr (Error ''syntax error''), after_select_1)
   \<and> query local_env (\<lambda>tok ddir. Some ''t0'') err_syntax ''SELECT 1'' initial_state
     = (Inl (ValueError (''Error running query:'' @ [CHR 0x0A] @ ''syntax error'')), after_select_1)
   \<and> sublist ''syntax error'' (''Error running query:'' @ [CHR 0x0A] @ ''syntax error'')"
  using raw_query_syntax_error query_error_message [OF raw_query_syntax_error] by simp

text \<open>
  C4. Outside pyodide, \<^verbatim>\<open>configure\<close> with any three arguments returns normally,
  stores the three arguments, sets the configured flag and empties the cache of
  \<^verbatim>\<open>_get_token\<close>; the trace is untouched. A call of \<^verbatim>\<open>_get_token\<close> that follows asks the
  token-loading collaborator exactly once, with the credential and discovery path
  just stored, and returns what the collaborator found (or raises when it found
  nothing); a token cached before the \<^verbatim>\<open>configure\<close> is not returned.
\<close>

theorem configure_replaces_and_invalidates:
  assumes "\<not> in_pyodide e"
  shows "configure e tok ddir burl s
           = (Inr (), s\<lparr>token := tok, data_dir := ddir, base_url := burl,
                         get_token_cache := None, configured := True\<rparr>)
       \<and> get_token e ld (snd (configure e tok ddir burl s))
           = (case ld tok ddir of
                None \<Rightarrow> Inl (LogfireConfigError NO_TOKEN_MESSAGE)
              | Some t \<Rightarrow> Inr t,
              s\<lparr>token := tok, data_dir := ddir, base_url := burl,
                get_token_cache := ld tok ddir, configured := True,
                trace := trace s @ [Load_token tok ddir]\<rparr>)"
  using assms
  by (simp add: configure_def get_token_def get_token_body_def split: option.splits)

theorem configure_replaces_and_invalidates_witness:
  "\<not> in_pyodide local_env
   \<and> configure local_env None ''creds'' (Some ''http://localhost:8000'') used_state
       = (Inr (), \<lparr>configured = True, token = None, data_dir = ''creds'',
                   base_url = Some ''http://localhost:8000'', get_token_cache = None,
                   trace = [Load_token (Some ''old'') ''.logfire'']\<rparr>)
   \<and> get_token local_env dir_loader
        (snd (configure local_env None ''creds'' (Some ''http://localhost:8000'') used_state))
       = (Inr ''from-file'',
          \<lparr>configured = True, token = None, data_dir = ''creds'',
           base_url = Some ''http://localhost:8000'', get_token_cache = Some ''from-file'',
           trace = [Load_token (Some ''old'') ''.logfire'', Load_token None ''creds'']\<rparr>)"
proof -
  have a: "\<not> in_pyodide local_env" by (simp add: local_env_def)
  show ?thesis
    using a
      configure_replaces_and_invalidates [OF a, of None "''creds''"
        "Some ''http://localhost:8000''" used_state dir_loader, THEN conjunct1]
      configure_replaces_and_invalidates [OF a, of None "''creds''"
        "Some ''http://localhost:8000''" used_state dir_loader, THEN conjunct2]
    by (simp add: used_state_def dir_loader_def)
qed

text \<open>
  C5. When a call of \<^verbatim>\<open>_get_token\<close> yields a credential, the next call, with no
  \<^verbatim>\<open>configure\<close> in between, yields the same credential and leaves the state as it
  is, trace included: the token-loading collaborator is not asked again, whatever
  it would answer now. If the cache was empty before the first call, that call
  asked the collaborator exactly once. This holds in every environment, so in
  particular outside pyodide.
\<close>

theorem get_token_memoized:
  assumes "get_token e ld s = (Inr t, s1)"
  shows "get_token e ld' s1 = (Inr t, s1)
       \<and> (get_token_cache s = None \<longrightarrow>
            trace s1 = trace s @ [Load_token (token s1) (data_dir s1)])"
proof -
  from assms have "get_token_cache s1 = Some t" by (rule get_token_Inr)
  then have "get_token e ld' s1 = (Inr t, s1)" by (rule get_token_hit)
  moreover have "get_token_cache s = None \<longrightarrow>
      trace s1 = trace s @ [Load_token (token s1) (data_dir s1)]"
    using assms by (blast intro: get_token_Inr_trace)
  ultimately show ?thesis by simp
qed

theorem get_token_memoized_witness:
  "get_token local_env (\<lambda>tok ddir. Some ''t0'') initial_state
       = (Inr ''t0'', \<lparr>configured = True, token = None, data_dir = ''.logfire'', base_url = None,
                       get_token_cache = Some ''t0'', trace = [Load_token None ''.logfire'']\<rparr>)
   \<and> get_token_cache initial_state = None
   \<and> get_token local_env (\<lambda>tok ddir. Some ''t1'')
        \<lparr>configured = True, token = None, data_dir = ''.logfire'', base_url = None,
         get_token_cache = Some ''t0'', trace = [Load_token None ''.logfire'']\<rparr>
       = (Inr ''t0'', \<lparr>configured = True, token = None, data_dir = ''.logfire'', base_url = None,
                       get_token_cache = Some ''t0'', trace = [Load_token None ''.logfire'']\<rparr>)"
proof -
  have b: "get_token local_env (\<lambda>tok ddir. Some ''t0'') initial_state
       = (Inr ''t0'', \<lparr>configured = True, token = None, data_dir = ''.logfire'', base_url = None,
                       get_token_cache = Some ''t0'', trace = [Load_token None ''.logfire'']\<rparr>)"
    by (simp add: get_token_def get_token_body_def configure_default_def configure_def
        local_env_def initial_state_def)
  have c: "get_token_cache initial_state = None" by (simp add: initial_state_def)
  show ?thesis
    using b c get_token_memoized [OF b, of "\<lambda>tok ddir. Some ''t1''"]
    by simp
qed

text \<open>
  C6. Outside pyodide, when \<^verbatim>\<open>_get_token\<close> has to resolve the token (nothing is
  cached) and the token-loading collaborator returns no credential for the stored
  explicit credential and discovery path, the call raises \<^verbatim>\<open>LogfireConfigError\<close>,
  the module's configuration error. Its message names the environment variable
  \<^verbatim>\<open>LOGFIRE_TOKEN\<close> and the call of \<^verbatim>\<open>logfire.dash.configure\<close>. The stored values
  are those the collaborator is called with: the globals when \<^verbatim>\<open>configure\<close> has
  run, and the defaults that the implicit \<^verbatim>\<open>configure()\<close> assigns when it has not;
  in every reachable state the two agree (\<open>reachable_defaults\<close>).
\<close>

theorem get_token_no_credential:
  assumes "\<not> in_pyodide e" and "get_token_cache s = None"
    and "ld (if configured s then token s else None)
            (if configured s then data_dir s else ''.logfire'') = None"
  shows "fst (get_token e ld s) = Inl (LogfireConfigError NO_TOKEN_MESSAGE)
       \<and> sublist ''environment variable `LOGFIRE_TOKEN`'' NO_TOKEN_MESSAGE
       \<and> sublist ''call to `logfire.dash.configure`'' NO_TOKEN_MESSAGE"
proof -
  have "fst (get_token e ld s) = Inl (LogfireConfigError NO_TOKEN_MESSAGE)"
  proof (cases "configured s")
    case True
    with assms show ?thesis by (simp add: get_token_miss)
  next
    case False
    with assms show ?thesis
      by (simp add: get_token_miss_unconfigured get_token_miss configure_default_def configure_def)
  qed
  moreover have "sublist ''environment variable `LOGFIRE_TOKEN`'' NO_TOKEN_MESSAGE"
    by code_simp
  moreover have "sublist ''call to `logfire.dash.configure`'' NO_TOKEN_MESSAGE"
    by code_simp
  ultimately show ?thesis by simp
qed

theorem get_token_no_credential_witness:
  "\<not> in_pyodide local_env \<and> get_token_cache initial_state = None
   \<and> dir_loader None ''.logfire'' = None
   \<and> fst (get_token local_env dir_loader initial_state) = Inl (LogfireConfigError NO_TOKEN_MESSAGE)"
proof -
  have a: "\<not> in_pyodide local_env" by (simp add: local_env_def)
  have b: "get_token_cache initial_state = None" by (simp add: initial_state_def)
  have c: "dir_loader (if configured initial_state then token initial_state else None)
            (if configured initial_state then data_dir initial_state else ''.logfire'') = None"
    by (simp add: initial_state_def dir_loader_def)
  show ?thesis
    using a b c
      get_token_no_credential [where e = local_env and s = initial_state and ld = dir_loader,
        OF a b c]
    by (simp add: initial_state_def)
qed

text \<open>
  C7. Under pyodide, \<^verbatim>\<open>configure\<close> with any arguments returns normally and the state
  after the call is the state before it: credential, discovery path, base URL,
  configured flag, cache and trace.
\<close>

theorem configure_pyodide_noop:
  assumes "in_pyodide e"
  shows "configure e tok ddir burl s = (Inr (), s)"
  using assms by (simp add: configure_def)

theorem configure_pyodide_noop_witness:
  "in_pyodide pyodide_env
   \<and> configure pyodide_env (Some ''secret'') ''creds'' (Some ''http://localhost:8000'') initial_state
       = (Inr (), initial_state)"
proof -
  have a: "in_pyodide pyodide_env" by (simp add: pyodide_env_def)
  show ?thesis
    using a configure_pyodide_noop [OF a, of "Some ''secret''" "''creds''"
        "Some ''http://localhost:8000''" initial_state]
    by simp
qed

text \<open>
  C8, as stated: outside pyodide \<^verbatim>\<open>_raw_query\<close> sends exactly one request for every
  SQL string, to the configured override whenever one is set. Both parts fail.
  For the override \<^verbatim>\<open>''\<close>: after \<^verbatim>\<open>configure(token='t0', base_url='')\<close> the stored
  override is the empty string, and the one request of \<^verbatim>\<open>_raw_query("SELECT 1")\<close>
  goes to the default base URL, not to the route built from the override. For the
  token \<^verbatim>\<open>'t\xe9'\<close>: after \<^verbatim>\<open>configure(token='t\xe9')\<close> the token is resolved, building
  the client raises \<^verbatim>\<open>UnicodeEncodeError\<close>, and no request is sent.
\<close>

theorem raw_query_counterexample:
  "base_url (snd (configure local_env (Some ''t0'') ''.logfire'' (Some '''') initial_state)) = Some ''''
   \<and> http_requests (trace (snd (raw_query local_env (\<lambda>tok ddir. tok) ok_select_1 ''SELECT 1''
        (snd (configure local_env (Some ''t0'') ''.logfire'' (Some '''') initial_state)))))
       = [\<lparr>route = ''https://api.logfire.dev/dash/query'',
           params = [(''q'', ''SELECT 1'')],
           headers = [(''Authorization'', ''t0'')]\<rparr>]
   \<and> ''https://api.logfire.dev/dash/query''
       \<noteq> spec_base_url (Some '''') (LOGFIRE_BASE_URL local_env) @ ''/dash/query''
   \<and> fst (get_token local_env (\<lambda>tok ddir. tok)
        (snd (configure local_env (Some non_ascii_token) ''.logfire'' None initial_state)))
       = Inr non_ascii_token
   \<and> fst (raw_query local_env (\<lambda>tok ddir. tok) ok_select_1 ''SELECT 1''
        (snd (configure local_env (Some non_ascii_token) ''.logfire'' None initial_state)))
       = Inl UnicodeEncodeError
   \<and> http_requests (trace (snd (raw_query local_env (\<lambda>tok ddir. tok) ok_select_1 ''SELECT 1''
        (snd (configure local_env (Some non_ascii_token) ''.logfire'' None initial_state)))))
       = []"
  by (simp add: raw_query_def get_token_def get_token_body_def configure_def local_env_def
      initial_state_def base_url_or_def ok_select_1_def raise_for_status_def is_success_def
      spec_base_url_def AsyncClient_def is_ascii_def non_ascii_token_def)

text \<open>
  C8, amended. In a module imported outside pyodide, once \<^verbatim>\<open>_get_token\<close> has given
  the token: when the token is ASCII, \<^verbatim>\<open>_raw_query\<close> makes exactly one call of
  \<^verbatim>\<open>client.get\<close>, a GET for the base URL followed by \<^verbatim>\<open>/dash/query\<close>, with the SQL
  text under the parameter \<^verbatim>\<open>q\<close> and the token under the header \<^verbatim>\<open>Authorization\<close>.
  The base URL is the configured override when one is set and is not the empty
  string, and the default otherwise. An exception of \<^verbatim>\<open>client.get\<close> is passed on; a
  response whose status is not 2xx raises before the body is parsed; otherwise
  the result is the parsed body. When the token is not ASCII, building the client
  raises \<^verbatim>\<open>UnicodeEncodeError\<close> and \<^verbatim>\<open>client.get\<close> is not called.
\<close>

theorem raw_query_one_request:
  assumes "import_dash mods hi sh du = Inr e" and "\<not> in_pyodide e"
    and "get_token e ld s = (Inr tok, s1)"
  shows "(is_ascii tok \<longrightarrow>
           (let req = \<lparr>route = (case base_url s1 of
                                   None \<Rightarrow> LOGFIRE_BASE_URL e
                                 | Some u \<Rightarrow> if u = [] then LOGFIRE_BASE_URL e else u) @ ''/dash/query'',
                       params = [(''q'', q)],
                       headers = [(''Authorization'', tok)]\<rparr>
            in snd (raw_query e ld http q s) = s1\<lparr>trace := trace s1 @ [Http_get req]\<rparr>
             \<and> http_requests (trace (snd (raw_query e ld http q s))) = http_requests (trace s) @ [req]
             \<and> fst (raw_query e ld http q s)
                 = (case http req of
                      Inl err \<Rightarrow> Inl err
                    | Inr resp \<Rightarrow>
                        if 200 \<le> status_code resp \<and> status_code resp \<le> 299 then json resp
                        else Inl (HTTPStatusError (status_code resp)))))
       \<and> (\<not> is_ascii tok \<longrightarrow>
            raw_query e ld http q s = (Inl UnicodeEncodeError, s1)
          \<and> http_requests (trace (snd (raw_query e ld http q s))) = http_requests (trace s))"
proof -
  have hx: "httpx e" using assms(1,2) by (rule import_dash_httpx)
  have tr: "http_requests (trace s1) = http_requests (trace s)"
    using assms(3) by (rule get_token_http_requests)
  have ac: "AsyncClient [(''Authorization'', tok)]
      = (if is_ascii tok then Inr [(''Authorization'', tok)] else Inl UnicodeEncodeError)"
    by (simp add: AsyncClient_def is_ascii_def)
  show ?thesis
    using assms(2) hx assms(3) tr ac
    by (simp add: raw_query_def Let_def base_url_or_def raise_for_status_def is_success_def
        http_requests_append split: sum.splits option.splits)
qed

theorem raw_query_one_request_witness:
  "import_dash [''sys'', ''httpx''] True None ''https://api.logfire.dev'' = Inr local_env
   \<and> \<not> in_pyodide local_env
   \<and> get_token local_env (\<lambda>tok ddir. tok)
        (snd (configure local_env (Some ''t0'') ''.logfire'' (Some ''http://localhost:8000'') initial_state))
       = (Inr ''t0'',
          \<lparr>configured = True, token = Some ''t0'', data_dir = ''.logfire'',
           base_url = Some ''http://localhost:8000'', get_token_cache = Some ''t0'',
           trace = [Load_token (Some ''t0'') ''.logfire'']\<rparr>)
   \<and> is_ascii ''t0''
   \<and> raw_query local_env (\<lambda>tok ddir. tok) unavailable ''SELECT 1''
        (snd (configure local_env (Some ''t0'') ''.logfire'' (Some ''http://localhost:8000'') initial_state))
       = (Inl (HTTPStatusError 503),
          \<lparr>configured = True, token = Some ''t0'', data_dir = ''.logfire'',
           base_url = Some ''http://localhost:8000'', get_token_cache = Some ''t0'',
           trace = [Load_token (Some ''t0'') ''.logfire'',
                    Http_get \<lparr>route = ''http://localhost:8000/dash/query'',
                              params = [(''q'', ''SELECT 1'')],
                              headers = [(''Authorization'', ''t0'')]\<rparr>]\<rparr>)
   \<and> get_token local_env (\<lambda>tok ddir. tok)
        (snd (configure local_env (Some non_ascii_token) ''.logfire'' None initial_state))
       = (Inr non_ascii_token,
          \<lparr>configured = True, token = Some non_ascii_token, data_dir = ''.logfire'',
           base_url = None, get_token_cache = Some non_ascii_token,
           trace = [Load_token (Some non_ascii_token) ''.logfire'']\<rparr>)
   \<and> \<not> is_ascii non_ascii_token
   \<and> raw_query local_env (\<lambda>tok ddir. tok) ok_select_1 ''SELECT 1''
        (snd (configure local_env (Some non_ascii_token) ''.logfire'' None initial_state))
       = (Inl UnicodeEncodeError,
          \<lparr>configured = True, token = Some non_ascii_token, data_dir = ''.logfire'',
           base_url = None, get_token_cache = Some non_ascii_token,
           trace = [Load_token (Some non_ascii_token) ''.logfire'']\<rparr>)"
proof -
  have a: "\<not> in_pyodide local_env" by (simp add: local_env_def)
  have b: "get_token local_env (\<lambda>tok ddir. tok)
        (snd (configure local_env (Some ''t0'') ''.logfire'' (Some ''http://localhost:8000'') initial_state))
       = (Inr ''t0'',
          \<lparr>configured = True, token = Some ''t0'', data_dir = ''.logfire'',
           base_url = Some ''http://localhost:8000'', get_token_cache = Some ''t0'',
           trace = [Load_token (Some ''t0'') ''.logfire'']\<rparr>)"
    by (simp add: get_token_def get_token_body_def configure_def local_env_def initial_state_def)
  have asc: "is_ascii ''t0''" by (simp add: is_ascii_def)
  note th = raw_query_one_request [OF import_local_env a b, of "''SELECT 1''" unavailable,
      THEN conjunct1, rule_format, OF asc]
  have c: "snd (raw_query local_env (\<lambda>tok ddir. tok) unavailable ''SELECT 1''
        (snd (configure local_env (Some ''t0'') ''.logfire'' (Some ''http://localhost:8000'') initial_state)))
      = \<lparr>configured = True, token = Some ''t0'', data_dir = ''.logfire'',
           base_url = Some ''http://localhost:8000'', get_token_cache = Some ''t0'',
           trace = [Load_token (Some ''t0'') ''.logfire'',
                    Http_get \<lparr>route = ''http://localhost:8000/dash/query'',
                              params = [(''q'', ''SELECT 1'')],
                              headers = [(''Authorization'', ''t0'')]\<rparr>]\<rparr>"
    using th by (simp add: Let_def)
  have d: "fst (raw_query local_env (\<lambda>tok ddir. tok) unavailable ''SELECT 1''
        (snd (configure local_env (Some ''t0'') ''.logfire'' (Some ''http://localhost:8000'') initial_state)))
      = Inl (HTTPStatusError 503)"
    using th by (simp add: Let_def unavailable_def)
  have b': "get_token local_env (\<lambda>tok ddir. tok)
        (snd (configure local_env (Some non_ascii_token) ''.logfire'' None initial_state))
       = (Inr non_ascii_token,
          \<lparr>configured = True, token = Some non_ascii_token, data_dir = ''.logfire'',
           base_url = None, get_token_cache = Some non_ascii_token,
           trace = [Load_token (Some non_ascii_token) ''.logfire'']\<rparr>)"
    by (simp add: get_token_def get_token_body_def configure_def local_env_def initial_state_def)
  have nasc: "\<not> is_ascii non_ascii_token" by (simp add: is_ascii_def non_ascii_token_def)
  note th' = raw_query_one_request [OF import_local_env a b', of "''SELECT 1''" ok_select_1,
      THEN conjunct2, rule_format, OF nasc, THEN conjunct1]
  show ?thesis
    using import_local_env a b asc c d b' nasc th' by (simp add: prod_eq_iff)
qed

text \<open>
  C9, as stated: outside pyodide \<^verbatim>\<open>show\<close> returns without raising for every item.
  This fails for the item \<^verbatim>\<open>10**5000\<close> in a plain process on Python 3.11:
  \<^verbatim>\<open>print\<close> raises \<^verbatim>\<open>ValueError\<close> for it and \<^verbatim>\<open>show\<close> passes the exception on.
\<close>

theorem show_print_raises_counterexample:
  "\<not> in_pyodide local_env \<and> \<not> in_jupyter local_env
   \<and> show_item local_env display_ok print_py311 (PyInt (10 ^ 5000)) initial_state
       = (Inl (ValueError INT_MAX_STR_DIGITS_MESSAGE),
          initial_state\<lparr>trace := [Print (PyInt (10 ^ 5000))]\<rparr>)"
proof -
  have "(10::int) ^ INT_MAX_STR_DIGITS \<le> 10 ^ 5000"
    unfolding INT_MAX_STR_DIGITS_def by (rule power_increasing) simp_all
  then have "exceeds_int_max_str_digits (PyInt (10 ^ 5000))"
    by (simp del: power_numeral)
  then show ?thesis
    by (simp add: show_item_def print_py311_def local_env_def initial_state_def
        del: power_numeral exceeds_int_max_str_digits.simps)
qed

text \<open>
  C9, amended. Outside pyodide \<^verbatim>\<open>show\<close> dispatches on the notebook flag: in a
  notebook it hands the item to \<^verbatim>\<open>IPython.display.display\<close>, otherwise it prints
  the item. It returns normally when that call returns, and passes on the
  exception when that call raises. Nothing but the trace changes: the
  configuration and the cache are as before.
\<close>

theorem show_dispatch:
  assumes "\<not> in_pyodide e"
  shows "(in_jupyter e \<longrightarrow>
            show_item e display print item s
              = (display item, s\<lparr>trace := trace s @ [Display item]\<rparr>))
       \<and> (\<not> in_jupyter e \<longrightarrow>
            show_item e display print item s
              = (print item, s\<lparr>trace := trace s @ [Print item]\<rparr>))"
  using assms by (simp add: show_item_def split: sum.splits)

theorem show_dispatch_witness:
  "\<not> in_pyodide notebook_env \<and> in_jupyter notebook_env
   \<and> show_item notebook_env display_ok print_py311 (PyStr ''hello'') initial_state
       = (Inr (), initial_state\<lparr>trace := [Display (PyStr ''hello'')]\<rparr>)
   \<and> \<not> in_pyodide local_env \<and> \<not> in_jupyter local_env
   \<and> show_item local_env display_ok print_py311 (PyStr ''hello'') initial_state
       = (Inr (), initial_state\<lparr>trace := [Print (PyStr ''hello'')]\<rparr>)"
proof -
  have a: "\<not> in_pyodide notebook_env" by (simp add: notebook_env_def)
  have b: "\<not> in_pyodide local_env" by (simp add: local_env_def)
  have c: "in_jupyter notebook_env" by (simp add: notebook_env_def)
  have d: "\<not> in_jupyter local_env" by (simp add: local_env_def)
  show ?thesis
    using a b c d
      show_dispatch [OF a, where display = display_ok and print = print_py311
        and item = "PyStr ''hello''" and s = initial_state]
      show_dispatch [OF b, where display = display_ok and print = print_py311
        and item = "PyStr ''hello''" and s = initial_state]
    by (simp add: initial_state_def display_ok_def print_py311_def)
qed

text \<open>
  C10. Outside pyodide, when \<^verbatim>\<open>_get_token\<close> raises, nothing is cached. The next call,
  with no \<^verbatim>\<open>configure\<close> in between, asks the token-loading collaborator again, with
  the stored credential and discovery path; when the collaborator now finds a
  credential, the call returns it and caches it.
\<close>

theorem failed_resolution_not_cached:
  assumes "\<not> in_pyodide e" and "get_token e ld s = (Inl err, s1)"
  shows "get_token_cache s1 = None
       \<and> trace (snd (get_token e ld' s1)) = trace s1 @ [Load_token (token s1) (data_dir s1)]
       \<and> (ld' (token s1) (data_dir s1) = Some t \<longrightarrow>
            get_token e ld' s1
              = (Inr t, s1\<lparr>trace := trace s1 @ [Load_token (token s1) (data_dir s1)],
                           get_token_cache := Some t\<rparr>))"
proof -
  from assms have s1: "get_token_cache s1 = None" "configured s1"
    using get_token_Inl [OF assms] by simp_all
  with assms(1) show ?thesis
    by (simp add: get_token_miss split: option.splits)
qed

theorem failed_resolution_not_cached_witness:
  "\<not> in_pyodide local_env
   \<and> get_token local_env (\<lambda>tok ddir. None) initial_state
       = (Inl (LogfireConfigError NO_TOKEN_MESSAGE),
          \<lparr>configured = True, token = None, data_dir = ''.logfire'', base_url = None,
           get_token_cache = None, trace = [Load_token None ''.logfire'']\<rparr>)
   \<and> get_token local_env (\<lambda>tok ddir. Some ''t0'')
        \<lparr>configured = True, token = None, data_dir = ''.logfire'', base_url = None,
         get_token_cache = None, trace = [Load_token None ''.logfire'']\<rparr>
       = (Inr ''t0'',
          \<lparr>configured = True, token = None, data_dir = ''.logfire'', base_url = None,
           get_token_cache = Some ''t0'',
           trace = [Load_token None ''.logfire'', Load_token None ''.logfire'']\<rparr>)"
proof -
  have a: "\<not> in_pyodide local_env" by (simp add: local_env_def)
  have b: "get_token local_env (\<lambda>tok ddir. None) initial_state
       = (Inl (LogfireConfigError NO_TOKEN_MESSAGE),
          \<lparr>configured = True, token = None, data_dir = ''.logfire'', base_url = None,
           get_token_cache = None, trace = [Load_token None ''.logfire'']\<rparr>)"
    by (simp add: get_token_def get_token_body_def configure_default_def configure_def
        local_env_def initial_state_def)
  show ?thesis
    using a b
      failed_resolution_not_cached [OF a b, of "\<lambda>tok ddir. Some ''t0''" "''t0''",
        THEN conjunct2, THEN conjunct2]
    by simp
qed

end
